theory Spec2Isabelle
  imports
    Main
    "HOL-Library.List_Lexorder"
    "HOL-Library.Product_Lexorder"
    "HOL-Library.Multiset"
    "HOL-Library.Sublist"
    "HOL-Library.Signed_Division"
begin

section \<open>Strings, runes and the library functions the selector calls\<close>

text \<open>
  A Go string is modelled by the sequence of its Unicode code points (a well-formed UTF-8
  string); a rune is such a code point (Go's \<^verbatim>\<open>int32\<close>).  The conversion
  \<^verbatim>\<open>[]rune(s)\<close> is then the identity, and the bytewise comparison \<^verbatim>\<open>a < b\<close> of
  two strings is the lexicographic order of the code point lists (UTF-8 keeps that order),
  which is the order that the library theory \<^verbatim>\<open>List_Lexorder\<close> puts on lists.
\<close>

type_synonym rune = int
type_synonym gostring = "rune list"

text \<open>A string literal: the code points of an ASCII text.\<close>

definition str :: "string \<Rightarrow> gostring" where
  "str s = map of_char s"

text \<open>
  \<^verbatim>\<open>string(runes)\<close>: every rune that is not a valid code point (negative, a surrogate
  half, or above U+10FFFF) is written as the replacement character U+FFFD.
\<close>

definition valid_rune :: "rune \<Rightarrow> bool" where
  "valid_rune r \<longleftrightarrow> (0 \<le> r \<and> r < 0xD800) \<or> (0xDFFF < r \<and> r \<le> 0x10FFFF)"

definition string_of_runes :: "rune list \<Rightarrow> gostring" where
  "string_of_runes rs = map (\<lambda>r. if valid_rune r then r else 0xFFFD) rs"

text \<open>\<^verbatim>\<open>unicode.IsSpace\<close>, the white space that \<^verbatim>\<open>strings.TrimSpace\<close> removes.\<close>

definition isSpace :: "rune \<Rightarrow> bool" where
  "isSpace r \<longleftrightarrow>
     r = 0x09 \<or> r = 0x0A \<or> r = 0x0B \<or> r = 0x0C \<or> r = 0x0D \<or> r = 0x20 \<or>
     r = 0x85 \<or> r = 0xA0 \<or> r = 0x1680 \<or> (0x2000 \<le> r \<and> r \<le> 0x200A) \<or>
     r = 0x2028 \<or> r = 0x2029 \<or> r = 0x202F \<or> r = 0x205F \<or> r = 0x3000"

definition TrimSpace :: "gostring \<Rightarrow> gostring" where
  "TrimSpace s = rev (dropWhile isSpace (rev (dropWhile isSpace s)))"

text \<open>
  \<^verbatim>\<open>strconv.Atoi\<close> (base 10, optional sign, 64-bit \<^verbatim>\<open>int\<close>): \<open>None\<close> stands for
  the syntax error and for the range error.
\<close>

definition isDigit :: "rune \<Rightarrow> bool" where
  "isDigit r \<longleftrightarrow> \<not> (r < 0x30 \<or> r > 0x39)"

definition digits_value :: "gostring \<Rightarrow> int" where
  "digits_value s = foldl (\<lambda>acc r. acc * 10 + (r - 0x30)) 0 s"

definition Atoi :: "gostring \<Rightarrow> int option" where
  "Atoi s =
     (let neg = (s \<noteq> [] \<and> hd s = 0x2D);
          body = (if s \<noteq> [] \<and> (hd s = 0x2B \<or> hd s = 0x2D) then tl s else s)
      in if body = [] \<or> \<not> list_all isDigit body then None
         else let v = (if neg then - digits_value body else digits_value body)
              in if v < - (2 ^ 63) \<or> 2 ^ 63 - 1 < v then None else Some v)"

text \<open>\<^verbatim>\<open>len\<close> of a slice, as Go's \<^verbatim>\<open>int\<close>.\<close>

abbreviation len :: "'a list \<Rightarrow> int" where
  "len xs \<equiv> int (length xs)"

section \<open>Data model\<close>

text \<open>
  \<^verbatim>\<open>prompt.Prompt\<close>.  The front matter (a parsed mapping) is kept as an association
  list of rendered values; only the renderer reads it.
\<close>

record prompt =
  Name :: gostring
  Path :: gostring
  Content :: gostring
  FrontMatter :: "(gostring \<times> gostring) list"
  Tags :: "gostring list"

text \<open>\<^verbatim>\<open>search.Options\<close> and the selector's own \<^verbatim>\<open>Options\<close>.\<close>

record search_options =
  MaxResults :: int

record ui_options =
  TruncateLength :: int

datatype selectorMode = modeFilter | modeNavigate

record selectorModel =
  allPrompts :: "prompt list"
  filtered :: "prompt list"
  cursor :: int
  cancelled :: bool
  width :: int
  height :: int
  ready :: bool
  query :: gostring
  filterOpts :: search_options
  uiOpts :: ui_options
  mode :: selectorMode

text \<open>
  The errors a selection can end in.  \<open>ErrProgram\<close> stands for any failure of the
  terminal program itself, \<open>PanicIndex\<close> for Go's run-time panic on an index out of range,
  and \<open>NoReturn\<close> for a call that does not come back: the terminal program waits for a
  message that never arrives.
\<close>

datatype error = ErrNoPrompts | ErrInvalidSelection | ErrProgram | PanicIndex | NoReturn

text \<open>
  The ranking engine \<^verbatim>\<open>search.Search\<close> is a parameter of every operation that calls it.
\<close>

type_synonym search_fn = "prompt list \<Rightarrow> gostring \<Rightarrow> search_options \<Rightarrow> prompt list"

section \<open>The selector\<close>

definition defaultTruncateLength :: int where
  "defaultTruncateLength = 120"

definition normalizeOptions :: "ui_options \<Rightarrow> ui_options" where
  "normalizeOptions opts =
     (if TruncateLength opts \<le> 0 then opts\<lparr>TruncateLength := defaultTruncateLength\<rparr> else opts)"

text \<open>
  \<^verbatim>\<open>sortPrompts\<close> calls \<^verbatim>\<open>sort.Slice\<close> with the comparison \<^verbatim>\<open>Name < Name\<close>.  The
  library promises a permutation in that order and no more: it is a function of its
  input, but not a stable sort.  The model is the insertion sort by key, which is stable;
  prompts of equal names may therefore come out of the program in another order than out
  of the model, and no property below depends on the order of equal names.
\<close>

definition sortPrompts :: "prompt list \<Rightarrow> prompt list" where
  "sortPrompts ps = sort_key Name ps"

definition toggleMode :: "selectorModel \<Rightarrow> selectorModel" where
  "toggleMode m = (if mode m = modeFilter then m\<lparr>mode := modeNavigate\<rparr> else m\<lparr>mode := modeFilter\<rparr>)"

definition applyQuery :: "search_fn \<Rightarrow> gostring \<Rightarrow> selectorModel \<Rightarrow> selectorModel" where
  "applyQuery Search q m0 =
     (let m1 = m0\<lparr>query := q\<rparr>;
          trimmed = TrimSpace q;
          m2 = (if trimmed = [] then m1\<lparr>filtered := sortPrompts (allPrompts m1)\<rparr>
                else let opts = filterOpts m1;
                         opts' = (if MaxResults opts \<le> 0 \<or> MaxResults opts > len (allPrompts m1)
                                  then opts\<lparr>MaxResults := len (allPrompts m1)\<rparr> else opts)
                     in m1\<lparr>filtered := Search (allPrompts m1) trimmed opts'\<rparr>)
      in if len (filtered m2) = 0 then m2\<lparr>cursor := 0\<rparr>
         else let m3 = (if cursor m2 \<ge> len (filtered m2)
                        then m2\<lparr>cursor := len (filtered m2) - 1\<rparr> else m2)
              in if trimmed \<noteq> [] then m3\<lparr>cursor := 0\<rparr> else m3)"

definition newSelectorModel ::
  "search_fn \<Rightarrow> prompt list \<Rightarrow> gostring \<Rightarrow> search_options \<Rightarrow> ui_options \<Rightarrow> selectorModel" where
  "newSelectorModel Search prompts initialQuery opts ui =
     applyQuery Search initialQuery
       \<lparr>allPrompts = prompts, filtered = [], cursor = 0, cancelled = False, width = 0,
        height = 0, ready = False, query = [], filterOpts = opts,
        uiOpts = normalizeOptions ui, mode = modeFilter\<rparr>"

definition moveUp :: "selectorModel \<Rightarrow> selectorModel" where
  "moveUp m =
     (if len (filtered m) = 0 then m
      else if cursor m = 0 then m\<lparr>cursor := len (filtered m) - 1\<rparr>
      else m\<lparr>cursor := cursor m - 1\<rparr>)"

text \<open>Go's \<^verbatim>\<open>%\<close> truncates towards zero: it is \<open>smod\<close>.\<close>

definition moveDown :: "selectorModel \<Rightarrow> selectorModel" where
  "moveDown m =
     (if len (filtered m) = 0 then m
      else m\<lparr>cursor := (cursor m + 1) smod len (filtered m)\<rparr>)"

definition backspace :: "search_fn \<Rightarrow> selectorModel \<Rightarrow> selectorModel" where
  "backspace Search m =
     (if query m = [] then m
      else applyQuery Search (string_of_runes (butlast (query m))) m)"

definition clearQuery :: "search_fn \<Rightarrow> selectorModel \<Rightarrow> selectorModel" where
  "clearQuery Search m = (if query m = [] then m else applyQuery Search [] m)"

definition isDigits :: "rune list \<Rightarrow> bool" where
  "isDigits runes = (if length runes = 0 then False else list_all isDigit runes)"

text \<open>The command an update returns: \<^verbatim>\<open>nil\<close> or \<^verbatim>\<open>tea.Quit\<close>.\<close>

datatype cmd = CmdNil | CmdQuit

definition handleRunes :: "search_fn \<Rightarrow> rune list \<Rightarrow> selectorModel \<Rightarrow> selectorModel \<times> cmd" where
  "handleRunes Search runes m =
     (if length runes = 0 then (m, CmdNil)
      else if mode m = modeNavigate then
        (if length runes = 1 then
           (if hd runes = 0x6A \<or> hd runes = 0x4A then (moveDown m, CmdNil)
            else if hd runes = 0x6B \<or> hd runes = 0x4B then (moveUp m, CmdNil)
            else (m, CmdNil))
         else (m, CmdNil))
      else if query m = [] \<and> isDigits runes then
        (case Atoi (string_of_runes runes) of
           Some idx \<Rightarrow>
             (if idx \<ge> 1 \<and> idx \<le> len (filtered m) then (m\<lparr>cursor := idx - 1\<rparr>, CmdNil)
              else (m, CmdNil))
         | None \<Rightarrow> (m, CmdNil))
      else (applyQuery Search (query m @ string_of_runes runes) m, CmdNil))"

text \<open>
  A message of the terminal program.  Of a key the update reads three things: the
  library's name for it (\<^verbatim>\<open>msg.String()\<close>), whether its type is \<^verbatim>\<open>tea.KeyRunes\<close>,
  and its runes.
\<close>

datatype msg =
    KeyMsg string bool "rune list"
  | WindowSizeMsg int int
  | OtherMsg

definition afterSwitch :: "search_fn \<Rightarrow> bool \<Rightarrow> rune list \<Rightarrow> selectorModel \<Rightarrow> selectorModel \<times> cmd" where
  "afterSwitch Search isRunes runes m =
     (if isRunes \<and> length runes > 0 then handleRunes Search runes m else (m, CmdNil))"

definition Update :: "search_fn \<Rightarrow> msg \<Rightarrow> selectorModel \<Rightarrow> selectorModel \<times> cmd" where
  "Update Search ms m =
     (case ms of
        KeyMsg k isRunes runes \<Rightarrow>
          (if k = ''esc'' then (toggleMode m, CmdNil)
           else if k = ''ctrl+c'' then (m\<lparr>cancelled := True\<rparr>, CmdQuit)
           else if k = ''backspace'' \<or> k = ''delete'' \<or> k = ''ctrl+h'' then
             (if mode m = modeNavigate then (m, CmdNil) else (backspace Search m, CmdNil))
           else if k = ''enter'' then
             ((if len (filtered m) = 0 then m\<lparr>cancelled := True\<rparr> else m), CmdQuit)
           else if k = ''up'' \<or> k = ''ctrl+p'' then afterSwitch Search isRunes runes (moveUp m)
           else if k = ''down'' \<or> k = ''ctrl+n'' then afterSwitch Search isRunes runes (moveDown m)
           else if k = ''ctrl+u'' then
             (if mode m = modeNavigate then (m, CmdNil)
              else afterSwitch Search isRunes runes (clearQuery Search m))
           else if k = ''j'' \<and> mode m = modeNavigate then (moveDown m, CmdNil)
           else if k = ''k'' \<and> mode m = modeNavigate then (moveUp m, CmdNil)
           else afterSwitch Search isRunes runes m)
      | WindowSizeMsg w h \<Rightarrow> (m\<lparr>width := w, height := h, ready := True\<rparr>, CmdNil)
      | OtherMsg \<Rightarrow> (m, CmdNil))"

text \<open>
  The terminal program (\<^verbatim>\<open>tea.Program\<close>) hands the model one message at a time.
  \<^verbatim>\<open>tea.Quit\<close> is a command: the program runs it beside the loop of the messages, so
  the messages that are queued already still reach the update before the program ends
  and returns the model it holds then.  A run of the program is therefore given by the
  messages it hands to the update until it ends, or it is the failure to start.  The
  program ends only after some update has returned \<^verbatim>\<open>tea.Quit\<close>; when none has, it
  goes on waiting for input.
\<close>

datatype program_run = StartFails | Handles "msg list"

text \<open>One message: the new model, and whether a quit has been asked for so far.\<close>

definition handleMessage ::
  "search_fn \<Rightarrow> selectorModel \<times> bool \<Rightarrow> msg \<Rightarrow> selectorModel \<times> bool" where
  "handleMessage Search st e =
     (case Update Search e (fst st) of
        (m', CmdQuit) \<Rightarrow> (m', True)
      | (m', CmdNil) \<Rightarrow> (m', snd st))"

definition StartReturningModel ::
  "search_fn \<Rightarrow> selectorModel \<Rightarrow> program_run \<Rightarrow> error + selectorModel" where
  "StartReturningModel Search m run =
     (case run of
        StartFails \<Rightarrow> Inl ErrProgram
      | Handles evs \<Rightarrow>
          (case foldl (handleMessage Search) (m, False) evs of
             (m', True) \<Rightarrow> Inr m'
           | (m', False) \<Rightarrow> Inl NoReturn))"

text \<open>Indexing a slice: out of range, Go panics.\<close>

definition index :: "'a list \<Rightarrow> int \<Rightarrow> error + 'a" where
  "index xs i = (if 0 \<le> i \<and> i < len xs then Inr (xs ! nat i) else Inl PanicIndex)"

text \<open>What \<^verbatim>\<open>runInteractiveSelector\<close> returns for the final model of the program.\<close>

definition selection :: "selectorModel \<Rightarrow> error + prompt" where
  "selection sel =
     (if cancelled sel \<or> len (filtered sel) = 0 then Inl ErrInvalidSelection
      else index (filtered sel) (cursor sel))"

definition runInteractiveSelector ::
  "search_fn \<Rightarrow> prompt list \<Rightarrow> gostring \<Rightarrow> search_options \<Rightarrow> ui_options \<Rightarrow> program_run
     \<Rightarrow> error + prompt" where
  "runInteractiveSelector Search prompts initialQuery opts ui run =
     (case StartReturningModel Search (newSelectorModel Search prompts initialQuery opts ui) run of
        Inl err \<Rightarrow> Inl err
      | Inr sel \<Rightarrow> selection sel)"

text \<open>
  Case mapping (\<^verbatim>\<open>strings.ToLower\<close>, \<^verbatim>\<open>strings.EqualFold\<close>) is modelled on the ASCII
  letters; every other rune is taken as it is, where the library maps the letters of all
  of Unicode.  On names and texts with letters outside ASCII the model of the name
  matching of the numbered selector can thus differ from the program.
\<close>

definition toLowerRune :: "rune \<Rightarrow> rune" where
  "toLowerRune r = (if 0x41 \<le> r \<and> r \<le> 0x5A then r + 0x20 else r)"

definition ToLower :: "gostring \<Rightarrow> gostring" where
  "ToLower s = map toLowerRune s"

definition EqualFold :: "gostring \<Rightarrow> gostring \<Rightarrow> bool" where
  "EqualFold s t \<longleftrightarrow> ToLower s = ToLower t"

fun Contains :: "gostring \<Rightarrow> gostring \<Rightarrow> bool" where
  "Contains [] sub = (sub = [])"
| "Contains (c # cs) sub = (prefix sub (c # cs) \<or> Contains cs sub)"

text \<open>
  The loop of the numbered selector over the listed prompts: a name equal to the text up
  to case is returned at once, the names that contain the text are collected.
\<close>

fun matchByName :: "prompt list \<Rightarrow> gostring \<Rightarrow> prompt list \<Rightarrow> error + prompt" where
  "matchByName [] text partialMatches =
     (if length partialMatches > 0 then index partialMatches 0 else Inl ErrInvalidSelection)"
| "matchByName (p # ps) text partialMatches =
     (if EqualFold (Name p) text then Inr p
      else matchByName ps text
             (if Contains (ToLower (Name p)) (ToLower text) then partialMatches @ [p]
              else partialMatches))"

text \<open>
  The numbered selector.  Of its reader it uses the first line a \<^verbatim>\<open>bufio.Scanner\<close>
  yields: \<open>None\<close> when \<^verbatim>\<open>Scan()\<close> returns false, \<open>Some l\<close> with the line \<open>l\<close>
  otherwise.  What it writes to \<^verbatim>\<open>out\<close> decides no result and is left out.
\<close>

definition selectPromptFallback :: "prompt list \<Rightarrow> gostring option \<Rightarrow> error + prompt" where
  "selectPromptFallback prompts line =
     (case line of
        None \<Rightarrow> index prompts 0
      | Some l \<Rightarrow>
          (let text = TrimSpace l in
           if text = [] then index prompts 0
           else case Atoi text of
                  Some idx \<Rightarrow>
                    (if idx < 1 \<or> idx > len prompts then Inl ErrInvalidSelection
                     else index prompts (idx - 1))
                | None \<Rightarrow> matchByName prompts text []))"

text \<open>
  What \<^verbatim>\<open>SelectPromptWithQuery\<close> meets outside: whether its reader and its writer are
  terminals, the run of the terminal program, and the first line of the reader.
\<close>

record terminal =
  inIsTerminal :: bool
  outIsTerminal :: bool
  program :: program_run
  firstLine :: "gostring option"

definition SelectPromptWithQuery ::
  "search_fn \<Rightarrow> prompt list \<Rightarrow> gostring \<Rightarrow> search_options \<Rightarrow> ui_options \<Rightarrow> terminal
     \<Rightarrow> error + prompt" where
  "SelectPromptWithQuery Search prompts initialQuery opts ui io =
     (if len prompts = 0 then Inl ErrNoPrompts
      else
        let ui' = normalizeOptions ui;
            display =
              (let trimmed = TrimSpace initialQuery in
               if trimmed \<noteq> [] then
                 (let matches = Search prompts trimmed opts in
                  if len matches > 0 then matches else prompts)
               else prompts);
            fallback = selectPromptFallback display (firstLine io)
        in if inIsTerminal io \<and> outIsTerminal io then
             (case runInteractiveSelector Search prompts initialQuery opts ui' (program io) of
                Inr selected \<Rightarrow> Inr selected
              | Inl ErrInvalidSelection \<Rightarrow> Inl ErrInvalidSelection
              | Inl PanicIndex \<Rightarrow> Inl PanicIndex
              | Inl NoReturn \<Rightarrow> Inl NoReturn
              | Inl _ \<Rightarrow> fallback)
           else fallback)"

definition SelectPrompt :: "search_fn \<Rightarrow> prompt list \<Rightarrow> terminal \<Rightarrow> error + prompt" where
  "SelectPrompt Search prompts io =
     SelectPromptWithQuery Search prompts [] \<lparr>MaxResults = 0\<rparr> \<lparr>TruncateLength = 0\<rparr> io"

section \<open>The ranking engine\<close>

text \<open>
  Modelled from the spec: the package \<^verbatim>\<open>internal/search\<close> with \<^verbatim>\<open>search.Search\<close>,
  the ranking engine, is not among the sources.  The definitions of this section follow
  section 4.1 of the specification: an empty query gives every candidate in the order of
  the names; otherwise a candidate is kept when the characters of the query occur in its
  name in this order, up to case, and it is scored by the number of matched characters,
  one point for each pair of neighbouring matched positions, two points for a match that
  starts the name, one point for each matched character right after a space, a hyphen or
  an underscore, and one point for each character matched in its own case.  The result is
  in the order of falling scores, then of shorter names, then of the names, and is cut
  to \<open>MaxResults\<close> entries when that is positive.
\<close>

text \<open>
  Modelled from the spec: the subsequence match of a query against a name, up to case.
  The specification fixes no positions for a match; the model takes the leftmost ones.
\<close>

fun matchPositions :: "gostring \<Rightarrow> gostring \<Rightarrow> nat \<Rightarrow> nat list option" where
  "matchPositions [] name i = Some []"
| "matchPositions (q # qs) [] i = None"
| "matchPositions (q # qs) (c # cs) i =
     (if toLowerRune q = toLowerRune c
      then map_option (\<lambda>ps. i # ps) (matchPositions qs cs (Suc i))
      else matchPositions (q # qs) cs (Suc i))"

text \<open>Modelled from the spec: the separators, a space, a hyphen and an underscore.\<close>

definition isSeparator :: "rune \<Rightarrow> bool" where
  "isSeparator r \<longleftrightarrow> r = 0x20 \<or> r = 0x2D \<or> r = 0x5F"

text \<open>
  Modelled from the spec: the score of a match, the matched characters and the four
  bonuses.
\<close>

definition score :: "gostring \<Rightarrow> gostring \<Rightarrow> nat list \<Rightarrow> int" where
  "score q name ps =
     len ps
     + len (filter (\<lambda>(a, b). b = Suc a) (zip ps (tl ps)))
     + (if ps \<noteq> [] \<and> hd ps = 0 then 2 else 0)
     + len (filter (\<lambda>p. 0 < p \<and> isSeparator (name ! (p - 1))) ps)
     + len (filter (\<lambda>(c, p). c = name ! p) (zip q ps))"

text \<open>Modelled from the spec: a candidate with its score, or nothing when it does not match.\<close>

definition scored :: "gostring \<Rightarrow> prompt \<Rightarrow> (int \<times> prompt) option" where
  "scored q c = map_option (\<lambda>ps. (score q (Name c) ps, c)) (matchPositions q (Name c) 0)"

text \<open>Modelled from the spec: the cut to \<open>MaxResults\<close> entries, none when it is 0.\<close>

definition truncateResults :: "search_options \<Rightarrow> prompt list \<Rightarrow> prompt list" where
  "truncateResults opts ps = (if MaxResults opts > 0 then take (nat (MaxResults opts)) ps else ps)"

text \<open>
  Modelled from the spec: \<open>rank(candidates, query, options)\<close>, the contract of
  \<^verbatim>\<open>search.Search\<close>.
\<close>

definition rank :: search_fn where
  "rank candidates q opts =
     (if q = [] then truncateResults opts (sort_key Name candidates)
      else truncateResults opts
             (map snd (sort_key (\<lambda>(s, c). (- s, length (Name c), Name c))
                         (List.map_filter (scored q) candidates))))"

section \<open>Notions the properties are stated with\<close>

text \<open>
  The invariant of the cursor: it is an index of the filtered view when the view has
  entries, and 0 when it has none.
\<close>

definition selector_inv :: "selectorModel \<Rightarrow> bool" where
  "selector_inv m \<longleftrightarrow>
     (if filtered m = [] then cursor m = 0 else 0 \<le> cursor m \<and> cursor m < len (filtered m))"

text \<open>The model after a sequence of messages, from a freshly constructed selector.\<close>

definition afterEvents ::
  "search_fn \<Rightarrow> prompt list \<Rightarrow> gostring \<Rightarrow> search_options \<Rightarrow> ui_options \<Rightarrow> msg list
     \<Rightarrow> selectorModel" where
  "afterEvents Search prompts initialQuery opts ui evs =
     foldl (\<lambda>m e. fst (Update Search e m)) (newSelectorModel Search prompts initialQuery opts ui) evs"

text \<open>The model after further messages have been handed to the update.\<close>

definition handleMessages :: "search_fn \<Rightarrow> selectorModel \<Rightarrow> msg list \<Rightarrow> selectorModel" where
  "handleMessages Search m es = foldl (\<lambda>m e. fst (Update Search e m)) m es"

text \<open>
  Character input, one call of \<^verbatim>\<open>handleRunes\<close> for each group of runes, and \<open>n\<close>
  deletion signals in a row.
\<close>

definition typeRunes :: "search_fn \<Rightarrow> rune list list \<Rightarrow> selectorModel \<Rightarrow> selectorModel" where
  "typeRunes Search inputs m = foldl (\<lambda>m rs. fst (handleRunes Search rs m)) m inputs"

definition deletions :: "search_fn \<Rightarrow> nat \<Rightarrow> selectorModel \<Rightarrow> selectorModel" where
  "deletions Search n m = ((\<lambda>m. fst (Update Search (KeyMsg ''backspace'' False []) m)) ^^ n) m"

text \<open>A prompt that has a name and nothing else, as the tests of the selector build them.\<close>

definition named :: "string \<Rightarrow> prompt" where
  "named n = \<lparr>Name = str n, Path = [], Content = [], FrontMatter = [], Tags = []\<rparr>"

text \<open>
  A model shows the empty-query view: its candidates are \<open>A\<close>, and with an empty query
  its filtered view is \<open>A\<close> in the order of the names.
\<close>

definition emptyQueryView :: "prompt list \<Rightarrow> selectorModel \<Rightarrow> bool" where
  "emptyQueryView A m \<longleftrightarrow> allPrompts m = A \<and> (query m = [] \<longrightarrow> filtered m = sortPrompts A)"

text \<open>
  Moreover \<open>k\<close> deletions empty the query: in typing mode it has at most \<open>k\<close> runes, and
  in navigation mode, where deletions are ignored, it is empty already.
\<close>

definition restorable :: "prompt list \<Rightarrow> nat \<Rightarrow> selectorModel \<Rightarrow> bool" where
  "restorable A k m \<longleftrightarrow>
     emptyQueryView A m \<and>
     (if mode m = modeNavigate then query m = [] else length (query m) \<le> k)"

section \<open>Library facts\<close>

lemma TrimSpace_empty_iff: "TrimSpace s = [] \<longleftrightarrow> list_all isSpace s"
proof
  assume "TrimSpace s = []"
  then have "dropWhile isSpace (rev (dropWhile isSpace s)) = []"
    by (simp add: TrimSpace_def)
  then have all: "\<forall>x\<in>set (dropWhile isSpace s). isSpace x"
    by simp
  have "dropWhile isSpace s = []"
  proof (cases "dropWhile isSpace s")
    case Nil
    then show ?thesis .
  next
    case (Cons x xs)
    then have "\<not> isSpace x" by (metis hd_dropWhile list.sel(1) list.distinct(1))
    with all Cons show ?thesis by simp
  qed
  then show "list_all isSpace s"
    by (induction s) (auto split: if_splits)
next
  assume "list_all isSpace s"
  then have "dropWhile isSpace s = []"
    by (induction s) auto
  then show "TrimSpace s = []" by (simp add: TrimSpace_def del: dropWhile_eq_Nil_conv)
qed

lemma length_string_of_runes: "length (string_of_runes rs) = length rs"
  by (simp add: string_of_runes_def)

lemma digits_foldl_nonneg:
  "0 \<le> acc \<Longrightarrow> list_all isDigit s \<Longrightarrow> 0 \<le> foldl (\<lambda>acc r. acc * 10 + (r - 0x30)) acc s"
  by (induction s arbitrary: acc) (auto simp: isDigit_def)

lemma digits_value_nonneg: "list_all isDigit s \<Longrightarrow> 0 \<le> digits_value s"
  by (simp add: digits_value_def digits_foldl_nonneg)

lemma digit_valid: "isDigit r \<Longrightarrow> valid_rune r"
  by (auto simp: isDigit_def valid_rune_def)

lemma string_of_digits: "list_all isDigit rs \<Longrightarrow> string_of_runes rs = rs"
  by (induction rs) (auto simp: string_of_runes_def digit_valid)

lemma Atoi_digits:
  assumes "isDigits rs"
  shows "Atoi rs = (if digits_value rs < 2 ^ 63 then Some (digits_value rs) else None)"
proof -
  from assms have ne: "rs \<noteq> []" and all: "list_all isDigit rs"
    by (auto simp: isDigits_def split: if_splits)
  from ne all have "isDigit (hd rs)" by (cases rs) auto
  then have hd: "hd rs \<noteq> 0x2B" "hd rs \<noteq> 0x2D" by (auto simp: isDigit_def)
  from digits_value_nonneg[OF all] hd ne all show ?thesis
    by (auto simp: Atoi_def Let_def)
qed

section \<open>What the filter step leaves alone\<close>

lemma applyQuery_fields:
  "allPrompts (applyQuery S q m) = allPrompts m"
  "query (applyQuery S q m) = q"
  "mode (applyQuery S q m) = mode m"
  by (simp_all add: applyQuery_def Let_def)

lemma filtered_applyQuery_blank:
  "list_all isSpace q \<Longrightarrow> filtered (applyQuery S q m) = sortPrompts (allPrompts m)"
  by (simp add: applyQuery_def Let_def TrimSpace_empty_iff)

lemma move_fields:
  "allPrompts (moveUp m) = allPrompts m" "query (moveUp m) = query m"
  "mode (moveUp m) = mode m" "filtered (moveUp m) = filtered m"
  "allPrompts (moveDown m) = allPrompts m" "query (moveDown m) = query m"
  "mode (moveDown m) = mode m" "filtered (moveDown m) = filtered m"
  by (simp_all add: moveUp_def moveDown_def)

text \<open>
  A key of type \<^verbatim>\<open>tea.KeyRunes\<close> whose name is none of the names the update looks
  for is character input: the update is the call of \<^verbatim>\<open>handleRunes\<close>.
\<close>

lemma Update_character_input:
  assumes "k \<notin> {''esc'', ''ctrl+c'', ''backspace'', ''delete'', ''ctrl+h'', ''enter'', ''up'',
                 ''ctrl+p'', ''down'', ''ctrl+n'', ''ctrl+u''}"
    and "mode m = modeNavigate \<longrightarrow> k \<noteq> ''j'' \<and> k \<noteq> ''k''"
    and "rs \<noteq> []"
  shows "Update S (KeyMsg k True rs) m = handleRunes S rs m"
  using assms by (cases "mode m") (auto simp: Update_def afterSwitch_def)

section \<open>Agreement with the tests of the repository\<close>

text \<open>
  The tests of the numbered selector: a number, an empty line, a name, a part of a name, a
  text that matches nothing, and no prompts.
\<close>

lemma numbered_selector_tests:
  "SelectPrompt rank [named ''alpha'', named ''beta'']
     \<lparr>inIsTerminal = False, outIsTerminal = False, program = Handles [], firstLine = Some (str ''2'')\<rparr>
     = Inr (named ''beta'')"
  "SelectPrompt rank [named ''alpha'', named ''beta'']
     \<lparr>inIsTerminal = False, outIsTerminal = False, program = Handles [], firstLine = Some []\<rparr>
     = Inr (named ''alpha'')"
  "SelectPrompt rank [named ''alpha'', named ''beta'']
     \<lparr>inIsTerminal = False, outIsTerminal = False, program = Handles [], firstLine = Some (str ''beta'')\<rparr>
     = Inr (named ''beta'')"
  "SelectPrompt rank [named ''product-brief'', named ''brainstorm'']
     \<lparr>inIsTerminal = False, outIsTerminal = False, program = Handles [],
      firstLine = Some (str ''product'')\<rparr>
     = Inr (named ''product-brief'')"
  "SelectPrompt rank [named ''alpha'', named ''beta'']
     \<lparr>inIsTerminal = False, outIsTerminal = False, program = Handles [], firstLine = Some (str ''three'')\<rparr>
     = Inl ErrInvalidSelection"
  "SelectPrompt rank []
     \<lparr>inIsTerminal = False, outIsTerminal = False, program = Handles [], firstLine = Some (str ''1'')\<rparr>
     = Inl ErrNoPrompts"
  by code_simp+

text \<open>
  The tests of the selector model: the arrow keys and j and k in the two modes, filtering
  while typing, the seed query, and the examples of the specification for the ranking.
\<close>

lemma selector_model_tests:
  "map cursor
     (map (afterEvents rank [named ''alpha'', named ''beta'', named ''gamma''] []
             \<lparr>MaxResults = 0\<rparr> \<lparr>TruncateLength = 0\<rparr>)
        [[], [KeyMsg ''down'' False []],
         [KeyMsg ''down'' False [], KeyMsg ''up'' False []],
         [KeyMsg ''j'' True (str ''j'')],
         [KeyMsg ''j'' True (str ''j''), KeyMsg ''backspace'' False [], KeyMsg ''esc'' False [],
          KeyMsg ''j'' True (str ''j'')],
         [KeyMsg ''j'' True (str ''j''), KeyMsg ''backspace'' False [], KeyMsg ''esc'' False [],
          KeyMsg ''j'' True (str ''j''), KeyMsg ''k'' True (str ''k'')]])
     = [0, 1, 0, 0, 1, 0]"
  "map Name (filtered (afterEvents rank
       [named ''brainstorm'', named ''product-brief'', named ''code-review''] []
       \<lparr>MaxResults = 0\<rparr> \<lparr>TruncateLength = 0\<rparr> [KeyMsg ''p'' True (str ''p'')]))
     = [str ''product-brief'']"
  "map Name (filtered (newSelectorModel rank [named ''alpha'', named ''beta'', named ''alpine'']
       (str ''alp'') \<lparr>MaxResults = 0\<rparr> \<lparr>TruncateLength = 0\<rparr>))
     = [str ''alpha'', str ''alpine'']"
  by code_simp+

section \<open>The cursor invariant\<close>

lemma applyQuery_inv: "selector_inv m \<Longrightarrow> selector_inv (applyQuery S q m)"
  by (auto simp: selector_inv_def applyQuery_def Let_def split: if_splits)

lemma moveUp_inv: "selector_inv m \<Longrightarrow> selector_inv (moveUp m)"
  by (auto simp: selector_inv_def moveUp_def split: if_splits)

lemma moveDown_inv: "selector_inv m \<Longrightarrow> selector_inv (moveDown m)"
  by (auto simp: selector_inv_def moveDown_def smod_int_alt_def sgn_if split: if_splits)

lemma toggleMode_inv: "selector_inv m \<Longrightarrow> selector_inv (toggleMode m)"
  by (simp add: selector_inv_def toggleMode_def)

lemma backspace_inv: "selector_inv m \<Longrightarrow> selector_inv (backspace S m)"
  by (simp add: backspace_def applyQuery_inv)

lemma clearQuery_inv: "selector_inv m \<Longrightarrow> selector_inv (clearQuery S m)"
  by (simp add: clearQuery_def applyQuery_inv)

lemma jump_inv:
  "1 \<le> idx \<Longrightarrow> idx \<le> len (filtered m) \<Longrightarrow> selector_inv (m\<lparr>cursor := idx - 1\<rparr>)"
  by (auto simp: selector_inv_def)

lemma handleRunes_inv:
  assumes "selector_inv m"
  shows "selector_inv (fst (handleRunes S rs m))"
  unfolding handleRunes_def
  by (simp add: assms applyQuery_inv moveUp_inv moveDown_inv jump_inv split: option.splits)

lemma afterSwitch_inv:
  "selector_inv m \<Longrightarrow> selector_inv (fst (afterSwitch S r rs m))"
  by (simp add: afterSwitch_def handleRunes_inv)

lemma cancelled_inv: "selector_inv m \<Longrightarrow> selector_inv (m\<lparr>cancelled := b\<rparr>)"
  by (simp add: selector_inv_def)

lemma resize_inv:
  "selector_inv m \<Longrightarrow> selector_inv (m\<lparr>width := w, height := h, ready := True\<rparr>)"
  by (simp add: selector_inv_def)

lemma Update_inv:
  assumes "selector_inv m"
  shows "selector_inv (fst (Update S e m))"
proof (cases e)
  case (KeyMsg k r rs)
  then show ?thesis
    unfolding Update_def
    by (simp add: assms afterSwitch_inv toggleMode_inv backspace_inv clearQuery_inv
        moveUp_inv moveDown_inv cancelled_inv)
next
  case (WindowSizeMsg w h)
  then show ?thesis by (simp add: Update_def assms resize_inv)
next
  case OtherMsg
  then show ?thesis by (simp add: Update_def assms)
qed

lemma newSelectorModel_inv: "selector_inv (newSelectorModel S ps q opts ui)"
  unfolding newSelectorModel_def
  by (rule applyQuery_inv) (simp add: selector_inv_def)

lemma afterEvents_inv: "selector_inv (afterEvents S ps q opts ui evs)"
proof -
  have "selector_inv m \<Longrightarrow> selector_inv (foldl (\<lambda>m e. fst (Update S e m)) m evs)" for m
    by (induction evs arbitrary: m) (simp_all add: Update_inv)
  then show ?thesis by (simp add: afterEvents_def newSelectorModel_inv)
qed

text \<open>
  C3.  Every event-handling operation keeps the cursor invariant: the update for any
  message, and in it the filter step, the two cursor moves, the mode toggle, the resize,
  the deletion, the clearing of the query and the character input.
\<close>

theorem cursor_invariant_preserved:
  assumes "selector_inv m"
  shows "selector_inv (fst (Update S e m))
       \<and> selector_inv (applyQuery S q m)
       \<and> selector_inv (moveUp m) \<and> selector_inv (moveDown m)
       \<and> selector_inv (toggleMode m)
       \<and> selector_inv (m\<lparr>width := w, height := h, ready := True\<rparr>)
       \<and> selector_inv (backspace S m) \<and> selector_inv (clearQuery S m)
       \<and> selector_inv (fst (handleRunes S rs m))"
  using assms
  by (simp add: Update_inv applyQuery_inv moveUp_inv moveDown_inv toggleMode_inv resize_inv
      backspace_inv clearQuery_inv handleRunes_inv)

text \<open>
  The witness of C3: a selector over three prompts with the cursor on the last entry; the
  move-down message wraps the cursor to 0 and the invariant still holds.
\<close>

theorem cursor_invariant_preserved_witness:
  "selector_inv (afterEvents rank [named ''alpha'', named ''beta'', named ''gamma''] []
       \<lparr>MaxResults = 0\<rparr> \<lparr>TruncateLength = 0\<rparr> [KeyMsg ''up'' False []])
 \<and> cursor (afterEvents rank [named ''alpha'', named ''beta'', named ''gamma''] []
       \<lparr>MaxResults = 0\<rparr> \<lparr>TruncateLength = 0\<rparr> [KeyMsg ''up'' False []]) = 2
 \<and> selector_inv (fst (Update rank (KeyMsg ''down'' False [])
      (afterEvents rank [named ''alpha'', named ''beta'', named ''gamma''] []
         \<lparr>MaxResults = 0\<rparr> \<lparr>TruncateLength = 0\<rparr> [KeyMsg ''up'' False []])))"
proof -
  let ?m = "afterEvents rank [named ''alpha'', named ''beta'', named ''gamma''] []
       \<lparr>MaxResults = 0\<rparr> \<lparr>TruncateLength = 0\<rparr> [KeyMsg ''up'' False []]"
  have h: "selector_inv ?m" by code_simp
  have c: "cursor ?m = 2" by code_simp
  from cursor_invariant_preserved[OF h, where S = rank and e = "KeyMsg ''down'' False []"] h c
  show ?thesis by simp
qed

section \<open>Mode toggle\<close>

text \<open>
  C8.  The escape key flips the mode between typing and navigating and changes nothing
  else: the updated model is the old one with only its mode replaced, and no command is
  issued.
\<close>

theorem toggle_only_flips_mode:
  "Update Search (KeyMsg ''esc'' isRunes runes) m =
     (m\<lparr>mode := (if mode m = modeFilter then modeNavigate else modeFilter)\<rparr>, CmdNil)"
  by (simp add: Update_def toggleMode_def)

section \<open>Cursor movement\<close>

text \<open>
  C6.  In a filtered view with entries, moving down from the last index puts the cursor
  on 0 and moving up from 0 puts it on the last index; on an empty view both moves change
  nothing; and the update performs the move for the keys down, ctrl+n, up and ctrl+p
  whatever the mode is.
\<close>

theorem move_wraps_around:
  "(filtered m \<noteq> [] \<and> cursor m = len (filtered m) - 1 \<longrightarrow> moveDown m = m\<lparr>cursor := 0\<rparr>)
 \<and> (filtered m \<noteq> [] \<and> cursor m = 0 \<longrightarrow> moveUp m = m\<lparr>cursor := len (filtered m) - 1\<rparr>)
 \<and> (filtered m = [] \<longrightarrow> moveDown m = m \<and> moveUp m = m)
 \<and> (k \<in> {''down'', ''ctrl+n''} \<longrightarrow> Update S (KeyMsg k False rs) m = (moveDown m, CmdNil))
 \<and> (k \<in> {''up'', ''ctrl+p''} \<longrightarrow> Update S (KeyMsg k False rs) m = (moveUp m, CmdNil))"
  by (auto simp: moveDown_def moveUp_def Update_def afterSwitch_def smod_int_alt_def)

text \<open>
  The witness of C6: over two prompts, from the last index 1 a move down gives 0, from 0
  a move up gives 1, in navigation mode as well; over a view that the query \<open>z\<close> leaves
  empty, both moves change nothing.
\<close>

theorem move_wraps_around_witness:
  "cursor (afterEvents rank [named ''alpha'', named ''beta''] [] \<lparr>MaxResults = 0\<rparr>
            \<lparr>TruncateLength = 0\<rparr> [KeyMsg ''esc'' False [], KeyMsg ''down'' False []]) = 1
 \<and> cursor (fst (Update rank (KeyMsg ''down'' False [])
      (afterEvents rank [named ''alpha'', named ''beta''] [] \<lparr>MaxResults = 0\<rparr>
            \<lparr>TruncateLength = 0\<rparr> [KeyMsg ''esc'' False [], KeyMsg ''down'' False []]))) = 0
 \<and> cursor (fst (Update rank (KeyMsg ''up'' False [])
      (newSelectorModel rank [named ''alpha'', named ''beta''] [] \<lparr>MaxResults = 0\<rparr>
            \<lparr>TruncateLength = 0\<rparr>))) = 1
 \<and> filtered (newSelectorModel rank [named ''alpha''] (str ''z'') \<lparr>MaxResults = 0\<rparr>
            \<lparr>TruncateLength = 0\<rparr>) = []
 \<and> moveDown (newSelectorModel rank [named ''alpha''] (str ''z'') \<lparr>MaxResults = 0\<rparr>
            \<lparr>TruncateLength = 0\<rparr>)
    = newSelectorModel rank [named ''alpha''] (str ''z'') \<lparr>MaxResults = 0\<rparr> \<lparr>TruncateLength = 0\<rparr>"
proof -
  let ?m1 = "afterEvents rank [named ''alpha'', named ''beta''] [] \<lparr>MaxResults = 0\<rparr>
            \<lparr>TruncateLength = 0\<rparr> [KeyMsg ''esc'' False [], KeyMsg ''down'' False []]"
  let ?m0 = "newSelectorModel rank [named ''alpha'', named ''beta''] [] \<lparr>MaxResults = 0\<rparr>
            \<lparr>TruncateLength = 0\<rparr>"
  let ?me = "newSelectorModel rank [named ''alpha''] (str ''z'') \<lparr>MaxResults = 0\<rparr>
            \<lparr>TruncateLength = 0\<rparr>"
  have f1: "length (filtered ?m1) = 2" and c1: "cursor ?m1 = 1" by code_simp+
  have f0: "length (filtered ?m0) = 2" and c0: "cursor ?m0 = 0" by code_simp+
  have fe: "filtered ?me = []" by code_simp
  from f1 have n1: "filtered ?m1 \<noteq> []" by auto
  from f0 have n0: "filtered ?m0 \<noteq> []" by auto
  from move_wraps_around[of ?m1 "''down''" rank "[]"] n1 f1 c1
  have d: "cursor (fst (Update rank (KeyMsg ''down'' False []) ?m1)) = 0" by simp
  from move_wraps_around[of ?m0 "''up''" rank "[]"] n0 f0 c0
  have u: "cursor (fst (Update rank (KeyMsg ''up'' False []) ?m0)) = 1" by simp
  from move_wraps_around[of ?me "''up''" rank "[]"] fe
  have e: "moveDown ?me = ?me" by simp
  from c1 d u fe e show ?thesis by simp
qed

section \<open>The empty query\<close>

lemma sortPrompts_props:
  "mset (sortPrompts ps) = mset ps \<and> sorted (map Name (sortPrompts ps))"
  by (simp add: sortPrompts_def)

lemma sorted_names_lexord:
  "sorted (map Name ps) \<longleftrightarrow>
   sorted_wrt (\<lambda>a b. Name a = Name b \<or> (Name a, Name b) \<in> lexord {(u, v). u < v}) ps"
  by (auto simp: sorted_map list_le_def list_less_def intro: sorted_wrt_mono_rel[rotated])

text \<open>
  C5.  For a query that is empty or consists of white space only, the filter step makes
  the filtered view a rearrangement of all candidates in which the names ascend in the
  lexicographic order of their characters (a name may only be followed by an equal or a
  lexicographically greater one), whatever the ranking engine is.
\<close>

theorem empty_query_lists_all_sorted:
  assumes "list_all isSpace q"
  shows "mset (filtered (applyQuery S q m)) = mset (allPrompts m)
       \<and> allPrompts (applyQuery S q m) = allPrompts m
       \<and> sorted_wrt (\<lambda>a b. Name a = Name b \<or> (Name a, Name b) \<in> lexord {(u, v). u < v})
           (filtered (applyQuery S q m))"
  using assms sortPrompts_props[of "allPrompts m"]
  by (simp add: filtered_applyQuery_blank sorted_names_lexord applyQuery_fields)

text \<open>
  The witness of C5: a selector built over brainstorm, product-brief and code-review with
  the query of two blanks lists code-review between the other two.
\<close>

theorem empty_query_lists_all_sorted_witness:
  "list_all isSpace (str ''  '')
 \<and> map Name (filtered (applyQuery rank (str ''  '')
       (newSelectorModel rank [named ''brainstorm'', named ''product-brief'', named ''code-review'']
          (str ''p'') \<lparr>MaxResults = 0\<rparr> \<lparr>TruncateLength = 0\<rparr>)))
     = [str ''brainstorm'', str ''code-review'', str ''product-brief'']
 \<and> sorted_wrt (\<lambda>a b. Name a = Name b \<or> (Name a, Name b) \<in> lexord {(u, v). u < v})
      (filtered (applyQuery rank (str ''  '')
       (newSelectorModel rank [named ''brainstorm'', named ''product-brief'', named ''code-review'']
          (str ''p'') \<lparr>MaxResults = 0\<rparr> \<lparr>TruncateLength = 0\<rparr>)))"
proof -
  have h: "list_all isSpace (str ''  '')" by code_simp
  have v: "map Name (filtered (applyQuery rank (str ''  '')
       (newSelectorModel rank [named ''brainstorm'', named ''product-brief'', named ''code-review'']
          (str ''p'') \<lparr>MaxResults = 0\<rparr> \<lparr>TruncateLength = 0\<rparr>)))
     = [str ''brainstorm'', str ''code-review'', str ''product-brief'']"
    by code_simp
  from empty_query_lists_all_sorted[OF h, of rank] h v show ?thesis by blast
qed

section \<open>Numeric jumps\<close>

text \<open>
  C2, as the code has it.  Character input in typing mode, with an empty query and runes
  that are all digits: when the number they spell lies between 1 and the length of the
  filtered view, the cursor is set to that number less one and nothing else changes, the
  query included; otherwise (the number is out of this range or too large for an
  \<^verbatim>\<open>int\<close>) the input is consumed without any effect: the model, with its query,
  its filtered view and its cursor, stays as it was.
\<close>

theorem numeric_jump_or_ignored:
  assumes "mode m = modeFilter" and "query m = []" and "isDigits rs"
  shows "handleRunes S rs m =
           (if 1 \<le> digits_value rs \<and> digits_value rs \<le> len (filtered m)
               \<and> digits_value rs < 2 ^ 63
            then m\<lparr>cursor := digits_value rs - 1\<rparr> else m, CmdNil)"
proof -
  from assms(3) have ne: "rs \<noteq> []" and all: "list_all isDigit rs"
    by (auto simp: isDigits_def split: if_splits)
  show ?thesis
    using assms ne by (simp add: handleRunes_def string_of_digits[OF all] Atoi_digits)
qed

text \<open>
  The witness of C2: over two prompts, the input 2 moves the cursor to index 1 and leaves
  the query empty.
\<close>

theorem numeric_jump_or_ignored_witness:
  "mode (newSelectorModel rank [named ''beta'', named ''alpha''] [] \<lparr>MaxResults = 0\<rparr>
            \<lparr>TruncateLength = 0\<rparr>) = modeFilter
 \<and> query (newSelectorModel rank [named ''beta'', named ''alpha''] [] \<lparr>MaxResults = 0\<rparr>
            \<lparr>TruncateLength = 0\<rparr>) = []
 \<and> isDigits (str ''2'')
 \<and> cursor (fst (handleRunes rank (str ''2'')
      (newSelectorModel rank [named ''beta'', named ''alpha''] [] \<lparr>MaxResults = 0\<rparr>
            \<lparr>TruncateLength = 0\<rparr>))) = 1
 \<and> query (fst (handleRunes rank (str ''2'')
      (newSelectorModel rank [named ''beta'', named ''alpha''] [] \<lparr>MaxResults = 0\<rparr>
            \<lparr>TruncateLength = 0\<rparr>))) = []"
proof -
  let ?m = "newSelectorModel rank [named ''beta'', named ''alpha''] [] \<lparr>MaxResults = 0\<rparr>
            \<lparr>TruncateLength = 0\<rparr>"
  have h1: "mode ?m = modeFilter" and h2: "query ?m = []" and h3: "isDigits (str ''2'')"
    by code_simp+
  have v: "digits_value (str ''2'') = 2" and n: "length (filtered ?m) = 2" by code_simp+
  from numeric_jump_or_ignored[OF h1 h2 h3, of rank] h1 h2 h3 v n show ?thesis by simp
qed

text \<open>
  C2 as the specification states it fails: over one prompt, in typing mode with an empty
  query, the input 5 is numeric and out of range, and the query is not extended by it.
\<close>

theorem out_of_range_digits_not_typed:
  "mode (newSelectorModel rank [named ''alpha''] [] \<lparr>MaxResults = 0\<rparr> \<lparr>TruncateLength = 0\<rparr>)
     = modeFilter
 \<and> query (newSelectorModel rank [named ''alpha''] [] \<lparr>MaxResults = 0\<rparr> \<lparr>TruncateLength = 0\<rparr>)
     = []
 \<and> isDigits (str ''5'')
 \<and> Atoi (string_of_runes (str ''5'')) = Some 5
 \<and> len (filtered (newSelectorModel rank [named ''alpha''] [] \<lparr>MaxResults = 0\<rparr>
       \<lparr>TruncateLength = 0\<rparr>)) = 1
 \<and> query (fst (handleRunes rank (str ''5'')
      (newSelectorModel rank [named ''alpha''] [] \<lparr>MaxResults = 0\<rparr> \<lparr>TruncateLength = 0\<rparr>)))
     \<noteq> query (newSelectorModel rank [named ''alpha''] [] \<lparr>MaxResults = 0\<rparr>
          \<lparr>TruncateLength = 0\<rparr>) @ string_of_runes (str ''5'')
 \<and> query (fst (handleRunes rank (str ''5'')
      (newSelectorModel rank [named ''alpha''] [] \<lparr>MaxResults = 0\<rparr> \<lparr>TruncateLength = 0\<rparr>)))
     = []"
  by code_simp

section \<open>Confirming on an empty view\<close>

lemma cancelled_Update: "cancelled m \<Longrightarrow> cancelled (fst (Update S e m))"
proof (cases e)
  case (KeyMsg k r rs)
  assume c: "cancelled m"
  have ap: "cancelled (applyQuery S q m)" for q
    using c by (simp add: applyQuery_def Let_def)
  have mv: "cancelled (moveUp m)" "cancelled (moveDown m)" "cancelled (toggleMode m)"
    using c by (simp_all add: moveUp_def moveDown_def toggleMode_def)
  have bs: "cancelled (backspace S m)" "cancelled (clearQuery S m)"
    using c ap by (simp_all add: backspace_def clearQuery_def)
  have hr: "cancelled m' \<Longrightarrow> cancelled (fst (handleRunes S rs m'))" for m'
    by (simp add: handleRunes_def applyQuery_def Let_def moveUp_def moveDown_def
        split: option.splits)
  have sw: "cancelled m' \<Longrightarrow> cancelled (fst (afterSwitch S r rs m'))" for m'
    by (simp add: afterSwitch_def hr)
  from KeyMsg show ?thesis
    unfolding Update_def by (simp add: c mv bs sw)
next
  case (WindowSizeMsg w h)
  assume "cancelled m"
  with WindowSizeMsg show ?thesis by (simp add: Update_def)
next
  case OtherMsg
  assume "cancelled m"
  with OtherMsg show ?thesis by (simp add: Update_def)
qed

lemma cancelled_handleMessages: "cancelled m \<Longrightarrow> cancelled (handleMessages S m es)"
  unfolding handleMessages_def
  by (induction es arbitrary: m) (simp_all add: cancelled_Update)

lemma quit_handleMessages:
  "foldl (handleMessage S) (m, True) es = (handleMessages S m es, True)"
  unfolding handleMessages_def
proof (induction es arbitrary: m)
  case Nil
  then show ?case by simp
next
  case (Cons e es)
  have "handleMessage S (m, True) e = (fst (Update S e m), True)"
    by (cases "Update S e m"; cases "snd (Update S e m)") (auto simp: handleMessage_def)
  with Cons show ?case by simp
qed

text \<open>
  C1, as the code has it.  When the enter key arrives while the filtered view is empty,
  the update marks the model as cancelled and asks the program to quit, with the very
  model and command that the cancel signal (ctrl+c) gives.  Whatever messages still
  reach the update before the program ends, the model stays cancelled, and for such a
  final model the caller is given \<open>ErrInvalidSelection\<close>, as it is after a cancel
  signal: there is no outcome of its own for the empty selection, and the caller cannot
  tell the two apart.
\<close>

theorem confirm_on_empty_ends_as_cancel:
  assumes "filtered m = []"
  shows "Update S (KeyMsg ''enter'' r rs) m = (m\<lparr>cancelled := True\<rparr>, CmdQuit)
       \<and> Update S (KeyMsg ''ctrl+c'' r rs) m = (m\<lparr>cancelled := True\<rparr>, CmdQuit)
       \<and> cancelled (handleMessages S (m\<lparr>cancelled := True\<rparr>) es)
       \<and> selection (handleMessages S (m\<lparr>cancelled := True\<rparr>) es) = Inl ErrInvalidSelection"
proof -
  have "cancelled (m\<lparr>cancelled := True\<rparr>)" by simp
  then have c: "cancelled (handleMessages S (m\<lparr>cancelled := True\<rparr>) es)"
    by (rule cancelled_handleMessages)
  then have "selection (handleMessages S (m\<lparr>cancelled := True\<rparr>) es) = Inl ErrInvalidSelection"
    by (simp add: selection_def)
  with c assms show ?thesis by (simp add: Update_def)
qed

text \<open>
  The witness of C1: the query \<open>z\<close> matches nothing of the single prompt alpha; the
  enter key marks the model as cancelled, and a deletion handed to the update after it
  empties the query and brings alpha back into the view, but the model is cancelled still
  and the caller is given \<open>ErrInvalidSelection\<close>.
\<close>

theorem confirm_on_empty_ends_as_cancel_witness:
  "filtered (newSelectorModel rank [named ''alpha''] (str ''z'') \<lparr>MaxResults = 0\<rparr>
      \<lparr>TruncateLength = 0\<rparr>) = []
 \<and> snd (Update rank (KeyMsg ''enter'' False [])
      (newSelectorModel rank [named ''alpha''] (str ''z'') \<lparr>MaxResults = 0\<rparr>
         \<lparr>TruncateLength = 0\<rparr>)) = CmdQuit
 \<and> map Name (filtered (handleMessages rank
      ((newSelectorModel rank [named ''alpha''] (str ''z'') \<lparr>MaxResults = 0\<rparr>
         \<lparr>TruncateLength = 0\<rparr>)\<lparr>cancelled := True\<rparr>) [KeyMsg ''backspace'' False []]))
    = [str ''alpha'']
 \<and> cancelled (handleMessages rank
      ((newSelectorModel rank [named ''alpha''] (str ''z'') \<lparr>MaxResults = 0\<rparr>
         \<lparr>TruncateLength = 0\<rparr>)\<lparr>cancelled := True\<rparr>) [KeyMsg ''backspace'' False []])
 \<and> selection (handleMessages rank
      ((newSelectorModel rank [named ''alpha''] (str ''z'') \<lparr>MaxResults = 0\<rparr>
         \<lparr>TruncateLength = 0\<rparr>)\<lparr>cancelled := True\<rparr>) [KeyMsg ''backspace'' False []])
    = Inl ErrInvalidSelection"
proof -
  have h: "filtered (newSelectorModel rank [named ''alpha''] (str ''z'') \<lparr>MaxResults = 0\<rparr>
      \<lparr>TruncateLength = 0\<rparr>) = []"
    by code_simp
  have v: "map Name (filtered (handleMessages rank
      ((newSelectorModel rank [named ''alpha''] (str ''z'') \<lparr>MaxResults = 0\<rparr>
         \<lparr>TruncateLength = 0\<rparr>)\<lparr>cancelled := True\<rparr>) [KeyMsg ''backspace'' False []]))
    = [str ''alpha'']"
    by code_simp
  from confirm_on_empty_ends_as_cancel[OF h, of rank False "[]" "[KeyMsg ''backspace'' False []]"]
    h v
  show ?thesis by simp
qed

text \<open>
  C1 as the specification states it fails: over the single prompt alpha with the query
  \<open>z\<close>, the enter key and ctrl+c leave the same model behind, and a session ended by
  the one and a session ended by the other give the caller the same result, the error
  \<open>ErrInvalidSelection\<close>.
\<close>

theorem empty_confirm_same_as_cancel:
  "fst (Update rank (KeyMsg ''enter'' False [])
      (newSelectorModel rank [named ''alpha''] (str ''z'') \<lparr>MaxResults = 0\<rparr>
         \<lparr>TruncateLength = 0\<rparr>))
    = fst (Update rank (KeyMsg ''ctrl+c'' False [])
      (newSelectorModel rank [named ''alpha''] (str ''z'') \<lparr>MaxResults = 0\<rparr>
         \<lparr>TruncateLength = 0\<rparr>))
 \<and> selection (fst (Update rank (KeyMsg ''enter'' False [])
      (newSelectorModel rank [named ''alpha''] (str ''z'') \<lparr>MaxResults = 0\<rparr>
         \<lparr>TruncateLength = 0\<rparr>))) = Inl ErrInvalidSelection
 \<and> selection (fst (Update rank (KeyMsg ''ctrl+c'' False [])
      (newSelectorModel rank [named ''alpha''] (str ''z'') \<lparr>MaxResults = 0\<rparr>
         \<lparr>TruncateLength = 0\<rparr>))) = Inl ErrInvalidSelection
 \<and> runInteractiveSelector rank [named ''alpha''] (str ''z'') \<lparr>MaxResults = 0\<rparr>
      \<lparr>TruncateLength = 0\<rparr> (Handles [KeyMsg ''enter'' False []]) = Inl ErrInvalidSelection
 \<and> runInteractiveSelector rank [named ''alpha''] (str ''z'') \<lparr>MaxResults = 0\<rparr>
      \<lparr>TruncateLength = 0\<rparr> (Handles [KeyMsg ''ctrl+c'' False []]) = Inl ErrInvalidSelection"
  by code_simp

text \<open>
  The program on messages that follow the quit: over alpha with the query \<open>z\<close>, the
  enter key and then a deletion leave a cancelled model with an empty query and alpha in
  its view, and the caller is given \<open>ErrInvalidSelection\<close>.  With no message that makes
  an update quit, the program does not return.
\<close>

lemma program_after_quit:
  "StartReturningModel S m (Handles (e # es))
     = (if snd (Update S e m) = CmdQuit then Inr (handleMessages S (fst (Update S e m)) es)
        else StartReturningModel S (fst (Update S e m)) (Handles es))"
  by (cases "Update S e m"; cases "snd (Update S e m)")
     (auto simp: StartReturningModel_def handleMessage_def quit_handleMessages)

lemma program_run_tests:
  "map_sum id (\<lambda>m. (cancelled m, query m, map Name (filtered m)))
     (StartReturningModel rank
        (newSelectorModel rank [named ''alpha''] (str ''z'') \<lparr>MaxResults = 0\<rparr>
           \<lparr>TruncateLength = 0\<rparr>)
        (Handles [KeyMsg ''enter'' False [], KeyMsg ''backspace'' False []]))
     = Inr (True, [], [str ''alpha''])"
  "runInteractiveSelector rank [named ''alpha''] (str ''z'') \<lparr>MaxResults = 0\<rparr>
      \<lparr>TruncateLength = 0\<rparr> (Handles [KeyMsg ''enter'' False [], KeyMsg ''backspace'' False []])
     = Inl ErrInvalidSelection"
  "runInteractiveSelector rank [named ''alpha''] [] \<lparr>MaxResults = 0\<rparr>
      \<lparr>TruncateLength = 0\<rparr> (Handles [KeyMsg ''down'' False []]) = Inl NoReturn"
  "runInteractiveSelector rank [named ''alpha'', named ''beta''] [] \<lparr>MaxResults = 0\<rparr>
      \<lparr>TruncateLength = 0\<rparr> (Handles [KeyMsg ''down'' False [], KeyMsg ''enter'' False []])
     = Inr (named ''beta'')"
  by code_simp+

section \<open>Refusing to start, and the numbered selector\<close>

text \<open>
  C9.  Started with no prompts, the selector returns the error \<open>ErrNoPrompts\<close> (``no
  prompts available'') whatever the query, the options and the terminal are: no message
  is handled and no line is read.
\<close>

theorem no_prompts_refused:
  "SelectPromptWithQuery S [] q opts ui io = Inl ErrNoPrompts
 \<and> SelectPrompt S [] io = Inl ErrNoPrompts"
  by (simp add: SelectPromptWithQuery_def SelectPrompt_def)

text \<open>
  C10.  For a list with at least one prompt, the numbered selector returns the first
  prompt, and no error, when the reader yields no line and when the line it yields is
  empty or consists of white space only.
\<close>

theorem fallback_defaults_to_first:
  assumes "prompts \<noteq> []"
  shows "selectPromptFallback prompts None = Inr (hd prompts)
       \<and> (list_all isSpace l \<longrightarrow> selectPromptFallback prompts (Some l) = Inr (hd prompts))"
  using assms
  by (cases prompts) (simp_all add: selectPromptFallback_def index_def TrimSpace_empty_iff)

text \<open>
  The witness of C10: over alpha and beta, no line and the line of a blank and a tab both
  give alpha.
\<close>

theorem fallback_defaults_to_first_witness:
  "[named ''alpha'', named ''beta''] \<noteq> []
 \<and> list_all isSpace [0x20, 0x09]
 \<and> selectPromptFallback [named ''alpha'', named ''beta''] None = Inr (named ''alpha'')
 \<and> selectPromptFallback [named ''alpha'', named ''beta''] (Some [0x20, 0x09]) = Inr (named ''alpha'')"
proof -
  have h: "[named ''alpha'', named ''beta''] \<noteq> []" by simp
  have b: "list_all isSpace [0x20, 0x09]" by (simp add: isSpace_def)
  from fallback_defaults_to_first[OF h, of "[0x20, 0x09]"] h b show ?thesis by simp
qed

section \<open>Typing and deleting\<close>

lemma applyQuery_Nil_filtered: "filtered (applyQuery S [] m) = sortPrompts (allPrompts m)"
  by (simp add: filtered_applyQuery_blank)

lemma view_applyQuery: "allPrompts m = A \<Longrightarrow> emptyQueryView A (applyQuery S q m)"
  by (auto simp: emptyQueryView_def applyQuery_fields applyQuery_Nil_filtered)

lemma view_moves:
  "emptyQueryView A m \<Longrightarrow> emptyQueryView A (moveUp m)"
  "emptyQueryView A m \<Longrightarrow> emptyQueryView A (moveDown m)"
  by (simp_all add: emptyQueryView_def move_fields)

lemma view_backspace:
  assumes "emptyQueryView A m"
  shows "emptyQueryView A (backspace S m)"
proof -
  from assms have "allPrompts m = A" by (simp add: emptyQueryView_def)
  with assms show ?thesis by (simp add: backspace_def view_applyQuery)
qed

lemma view_clearQuery:
  assumes "emptyQueryView A m"
  shows "emptyQueryView A (clearQuery S m)"
proof -
  from assms have "allPrompts m = A" by (simp add: emptyQueryView_def)
  with assms show ?thesis by (simp add: clearQuery_def view_applyQuery)
qed

lemma view_handleRunes:
  assumes "emptyQueryView A m"
  shows "emptyQueryView A (fst (handleRunes S rs m))"
proof -
  from assms have A: "allPrompts m = A" by (simp add: emptyQueryView_def)
  have jump: "\<And>i. emptyQueryView A (m\<lparr>cursor := i\<rparr>)"
    using assms by (simp add: emptyQueryView_def)
  show ?thesis
    unfolding handleRunes_def
    by (simp add: assms view_moves view_applyQuery[OF A] jump split: option.splits)
qed

lemma view_afterSwitch:
  "emptyQueryView A m \<Longrightarrow> emptyQueryView A (fst (afterSwitch S r rs m))"
  by (simp add: afterSwitch_def view_handleRunes)

lemma view_Update:
  assumes "emptyQueryView A m"
  shows "emptyQueryView A (fst (Update S e m))"
proof (cases e)
  case (KeyMsg k r rs)
  have other: "emptyQueryView A (toggleMode m)" "emptyQueryView A (m\<lparr>cancelled := True\<rparr>)"
    using assms by (simp_all add: emptyQueryView_def toggleMode_def)
  from KeyMsg show ?thesis
    unfolding Update_def
    by (simp add: assms other view_afterSwitch view_moves view_backspace view_clearQuery)
next
  case (WindowSizeMsg w h)
  with assms show ?thesis by (simp add: Update_def emptyQueryView_def)
next
  case OtherMsg
  with assms show ?thesis by (simp add: Update_def)
qed

lemma view_afterEvents: "emptyQueryView ps (afterEvents S ps q0 opts ui evs)"
proof -
  have start: "emptyQueryView ps (newSelectorModel S ps q0 opts ui)"
    unfolding newSelectorModel_def by (rule view_applyQuery) simp
  have "emptyQueryView ps m \<Longrightarrow> emptyQueryView ps (foldl (\<lambda>m e. fst (Update S e m)) m evs)" for m
    by (induction evs arbitrary: m) (simp_all add: view_Update)
  with start show ?thesis by (simp add: afterEvents_def)
qed

lemma restorable_applyQuery:
  "allPrompts m = A \<Longrightarrow> mode m = modeFilter \<Longrightarrow> length q \<le> k
     \<Longrightarrow> restorable A k (applyQuery S q m)"
  by (simp add: restorable_def view_applyQuery applyQuery_fields)

lemma restorable_handleRunes:
  assumes "restorable A k m"
  shows "restorable A (k + length rs) (fst (handleRunes S rs m))"
proof (cases "mode m")
  case modeNavigate
  from assms have "emptyQueryView A (fst (handleRunes S rs m))"
    by (simp add: restorable_def view_handleRunes)
  moreover from assms modeNavigate
  have "mode (fst (handleRunes S rs m)) = modeNavigate \<and> query (fst (handleRunes S rs m)) = []"
    by (simp add: handleRunes_def restorable_def move_fields)
  ultimately show ?thesis by (simp add: restorable_def)
next
  case modeFilter
  show ?thesis
  proof (cases "rs = [] \<or> (query m = [] \<and> isDigits rs)")
    case True
    from assms have "emptyQueryView A (fst (handleRunes S rs m))"
      by (simp add: restorable_def view_handleRunes)
    moreover from True assms modeFilter
    have "mode (fst (handleRunes S rs m)) = modeFilter
        \<and> length (query (fst (handleRunes S rs m))) \<le> k"
      by (auto simp: handleRunes_def restorable_def split: option.splits)
    ultimately show ?thesis by (simp add: restorable_def)
  next
    case False
    with modeFilter have "fst (handleRunes S rs m) = applyQuery S (query m @ string_of_runes rs) m"
      by (auto simp: handleRunes_def)
    moreover from assms modeFilter have "allPrompts m = A" "length (query m) \<le> k"
      by (simp_all add: restorable_def emptyQueryView_def)
    ultimately show ?thesis
      using modeFilter by (simp add: restorable_applyQuery length_string_of_runes)
  qed
qed

lemma restorable_typeRunes:
  "restorable A k m \<Longrightarrow> restorable A (k + length (concat inputs)) (typeRunes S inputs m)"
  unfolding typeRunes_def
proof (induction inputs arbitrary: k m)
  case Nil
  then show ?case by simp
next
  case (Cons rs inputs)
  from Cons.IH[OF restorable_handleRunes[OF Cons.prems, of rs S]]
  show ?case by (simp add: add.assoc)
qed

lemma restorable_delete:
  assumes "restorable A k m"
  shows "restorable A (k - 1) (fst (Update S (KeyMsg ''backspace'' False []) m))"
proof (cases "mode m = modeNavigate \<or> query m = []")
  case True
  with assms show ?thesis
    by (auto simp: Update_def backspace_def restorable_def)
next
  case False
  then have md: "mode m = modeFilter" and ne: "query m \<noteq> []" by (cases "mode m"; simp)+
  then have "fst (Update S (KeyMsg ''backspace'' False []) m)
               = applyQuery S (string_of_runes (butlast (query m))) m"
    by (simp add: Update_def backspace_def)
  moreover from assms md have "allPrompts m = A" "length (query m) \<le> k"
    by (simp_all add: restorable_def emptyQueryView_def)
  ultimately show ?thesis
    using md ne by (simp add: restorable_applyQuery length_string_of_runes)
qed

lemma restorable_deletions:
  "restorable A k m \<Longrightarrow> restorable A (k - n) (deletions S n m)"
  unfolding deletions_def
proof (induction n arbitrary: k m)
  case 0
  then show ?case by simp
next
  case (Suc n)
  from restorable_delete[OF Suc.IH[OF Suc.prems], of S] show ?case by simp
qed

lemma restorable_zero: "restorable A 0 m \<Longrightarrow> query m = [] \<and> filtered m = sortPrompts A"
  by (auto simp: restorable_def emptyQueryView_def split: if_splits)

lemma restorable_start:
  "emptyQueryView A m \<Longrightarrow> query m = [] \<Longrightarrow> restorable A 0 m"
  by (simp add: restorable_def)

text \<open>
  C7.  Take any state the selector reaches from its construction by a sequence of
  messages and in which the query is empty.  After any sequence of character inputs and
  then as many deletion signals as runes were put in, the query is empty again and the
  filtered view is the view of the empty query, all candidates in the order of the names,
  which is also the view the starting state had.
\<close>

theorem append_then_delete_restores:
  assumes "query (afterEvents S ps q0 opts ui evs) = []"
  shows "filtered (deletions S (length (concat inputs))
            (typeRunes S inputs (afterEvents S ps q0 opts ui evs))) = sortPrompts ps
       \<and> query (deletions S (length (concat inputs))
            (typeRunes S inputs (afterEvents S ps q0 opts ui evs))) = []
       \<and> filtered (afterEvents S ps q0 opts ui evs) = sortPrompts ps
       \<and> filtered (newSelectorModel S ps [] opts ui) = sortPrompts ps"
proof -
  let ?m = "afterEvents S ps q0 opts ui evs"
  let ?n = "length (concat inputs)"
  have v: "emptyQueryView ps ?m" by (rule view_afterEvents)
  from restorable_start[OF v assms]
  have "restorable ps (0 + ?n) (typeRunes S inputs ?m)" by (rule restorable_typeRunes)
  then have "restorable ps (?n - ?n) (deletions S ?n (typeRunes S inputs ?m))"
    by (intro restorable_deletions) simp
  then have "restorable ps 0 (deletions S ?n (typeRunes S inputs ?m))"
    by simp
  then have "query (deletions S ?n (typeRunes S inputs ?m)) = []
           \<and> filtered (deletions S ?n (typeRunes S inputs ?m)) = sortPrompts ps"
    by (simp add: restorable_zero)
  moreover from v assms have "filtered ?m = sortPrompts ps" by (simp add: emptyQueryView_def)
  moreover have "filtered (newSelectorModel S ps [] opts ui) = sortPrompts ps"
    by (simp add: newSelectorModel_def applyQuery_Nil_filtered)
  ultimately show ?thesis by simp
qed

text \<open>
  The witness of C7: over alpha, beta and alpine, typing a, l and p narrows the view to
  alpha and alpine, and three deletions bring back alpha, alpine, beta.
\<close>

theorem append_then_delete_restores_witness:
  "query (afterEvents rank [named ''alpha'', named ''beta'', named ''alpine''] []
           \<lparr>MaxResults = 0\<rparr> \<lparr>TruncateLength = 0\<rparr> []) = []
 \<and> map Name (filtered (typeRunes rank [str ''a'', str ''l'', str ''p'']
       (afterEvents rank [named ''alpha'', named ''beta'', named ''alpine''] []
           \<lparr>MaxResults = 0\<rparr> \<lparr>TruncateLength = 0\<rparr> []))) = [str ''alpha'', str ''alpine'']
 \<and> map Name (filtered (deletions rank 3 (typeRunes rank [str ''a'', str ''l'', str ''p'']
       (afterEvents rank [named ''alpha'', named ''beta'', named ''alpine''] []
           \<lparr>MaxResults = 0\<rparr> \<lparr>TruncateLength = 0\<rparr> []))))
     = [str ''alpha'', str ''alpine'', str ''beta'']"
proof -
  have h: "query (afterEvents rank [named ''alpha'', named ''beta'', named ''alpine''] []
           \<lparr>MaxResults = 0\<rparr> \<lparr>TruncateLength = 0\<rparr> []) = []"
    by code_simp
  have t: "map Name (filtered (typeRunes rank [str ''a'', str ''l'', str ''p'']
       (afterEvents rank [named ''alpha'', named ''beta'', named ''alpine''] []
           \<lparr>MaxResults = 0\<rparr> \<lparr>TruncateLength = 0\<rparr> []))) = [str ''alpha'', str ''alpine'']"
    by code_simp
  have s: "map Name (sortPrompts [named ''alpha'', named ''beta'', named ''alpine''])
             = [str ''alpha'', str ''alpine'', str ''beta'']"
    by code_simp
  have n: "length (concat [str ''a'', str ''l'', str ''p'']) = 3" by (simp add: str_def)
  from append_then_delete_restores[OF h, of "[str ''a'', str ''l'', str ''p'']"] h t s n
  show ?thesis by simp
qed

section \<open>What the ranking engine returns\<close>

lemma matchPositions_subseq:
  "(matchPositions q n i \<noteq> None) = subseq (map toLowerRune q) (map toLowerRune n)"
  by (induction q n i rule: matchPositions.induct) auto

lemma scored_Some:
  "scored q c = Some (s, c') \<Longrightarrow> c' = c \<and> subseq (ToLower q) (ToLower (Name c))"
  using matchPositions_subseq[of q "Name c" 0]
  by (auto simp: scored_def ToLower_def)

lemma scored_None_iff:
  "scored q c = None \<longleftrightarrow> \<not> subseq (ToLower q) (ToLower (Name c))"
  using matchPositions_subseq[of q "Name c" 0]
  by (auto simp: scored_def ToLower_def)

lemma set_truncateResults: "set (truncateResults opts ps) \<subseteq> set ps"
  by (auto simp: truncateResults_def dest: in_set_takeD)

lemma set_map_filter_conv:
  "set (List.map_filter f xs) = {y. \<exists>x\<in>set xs. f x = Some y}"
  by (induction xs) (auto simp: List.map_filter_simps split: option.splits)

lemma set_matches:
  "snd ` set (List.map_filter (scored q) cs)
     = {c \<in> set cs. subseq (ToLower q) (ToLower (Name c))}"
proof (intro set_eqI iffI)
  fix c assume "c \<in> snd ` set (List.map_filter (scored q) cs)"
  then obtain s x where "x \<in> set cs" "scored q x = Some (s, c)"
    by (auto simp: set_map_filter_conv)
  then show "c \<in> {c \<in> set cs. subseq (ToLower q) (ToLower (Name c))}"
    using scored_Some by blast
next
  fix c assume "c \<in> {c \<in> set cs. subseq (ToLower q) (ToLower (Name c))}"
  then have c: "c \<in> set cs" and "scored q c \<noteq> None" by (simp_all add: scored_None_iff)
  then obtain s c' where sc: "scored q c = Some (s, c')" by auto
  then have "c' = c" using scored_Some by blast
  with sc c have "(s, c) \<in> set (List.map_filter (scored q) cs)"
    by (auto simp: set_map_filter_conv)
  then show "c \<in> snd ` set (List.map_filter (scored q) cs)" by force
qed

lemma rank_all_matches_uncapped:
  assumes "q \<noteq> []" and "MaxResults opts \<le> 0"
  shows "set (rank cs q opts) = {c \<in> set cs. subseq (ToLower q) (ToLower (Name c))}"
proof -
  from assms have "set (rank cs q opts) = snd ` set (List.map_filter (scored q) cs)"
    by (simp add: rank_def truncateResults_def)
  then show ?thesis by (simp add: set_matches)
qed

text \<open>
  C4.  For a query that is not empty, every candidate in the ranked result is one of the
  given candidates and has the characters of the query, up to case, as a subsequence of
  its name (in their order, with gaps allowed); so a candidate without such a match is
  not in the result.
\<close>

theorem rank_only_matches:
  assumes "q \<noteq> []" and "c \<in> set (rank cs q opts)"
  shows "c \<in> set cs \<and> subseq (ToLower q) (ToLower (Name c))"
proof -
  from assms
  have "c \<in> set (truncateResults opts
                (map snd (sort_key (\<lambda>(s, c). (- s, length (Name c), Name c))
                            (List.map_filter (scored q) cs))))"
    by (simp add: rank_def)
  then have "c \<in> set (map snd (sort_key (\<lambda>(s, c). (- s, length (Name c), Name c))
                         (List.map_filter (scored q) cs)))"
    using set_truncateResults by blast
  then have "c \<in> snd ` set (List.map_filter (scored q) cs)" by simp
  then show ?thesis by (simp add: set_matches)
qed

text \<open>
  The witness of C4: for the query \<open>p\<close> over brainstorm, product-brief and code-review
  the result is product-brief alone, whose name has \<open>p\<close> as a subsequence.
\<close>

theorem rank_only_matches_witness:
  "str ''p'' \<noteq> []
 \<and> rank [named ''brainstorm'', named ''product-brief'', named ''code-review''] (str ''p'')
      \<lparr>MaxResults = 0\<rparr> = [named ''product-brief'']
 \<and> subseq (ToLower (str ''p'')) (ToLower (Name (named ''product-brief'')))"
proof -
  have h: "str ''p'' \<noteq> []" by (simp add: str_def)
  have r: "rank [named ''brainstorm'', named ''product-brief'', named ''code-review''] (str ''p'')
      \<lparr>MaxResults = 0\<rparr> = [named ''product-brief'']"
    by code_simp
  then have m: "named ''product-brief''
      \<in> set (rank [named ''brainstorm'', named ''product-brief'', named ''code-review'']
               (str ''p'') \<lparr>MaxResults = 0\<rparr>)"
    by simp
  from rank_only_matches[OF h m] h r show ?thesis by simp
qed

end
